theory Spec2Isabelle
  imports Main "HOL-Library.AList"
begin

section \<open>Data model of the storage module\<close>

text \<open>
  The storage module exists in two versions with the same class \<open>MemStorage\<close>.  They
  agree on every method except \<open>getServices\<close>, \<open>initializeServices\<close> and the seed
  catalog; the shared methods are embedded once, the differing ones carry the suffix
  \<open>_v1\<close> (earlier version) and \<open>_v2\<close> (later version).

  Conventions of the embedding:
  \<^item> a JavaScript \<open>Map\<close> is an association list in insertion order; \<open>Map.set\<close> is
    \<open>AList.update\<close> (an existing key keeps its position, a new key is appended),
    \<open>Map.get\<close> is \<open>map_of\<close>, \<open>Map.values\<close> is \<open>map snd\<close>;
  \<^item> \<open>new Date()\<close> is a parameter \<open>now\<close> of the method that reads the clock;
  \<^item> ids and counters are natural numbers (the counters only ever count up from 1);
  \<^item> an awaited promise is modelled by the value it resolves to;
  \<^item> strings are \<open>string\<close>, and the functions of the language that work on them are
    parameters.
\<close>

text \<open>An optional property of an object literal: absent, \<open>null\<close>, or present.\<close>

datatype 'a js_opt = Undefined | Null | Defined 'a

text \<open>
  The expression \<open>x === undefined ? null : x\<close> used by the create methods; \<open>None\<close> is
  \<open>null\<close>.
\<close>

fun undefined_to_null :: "'a js_opt \<Rightarrow> 'a option" where
  "undefined_to_null Undefined = None"
| "undefined_to_null Null = None"
| "undefined_to_null (Defined x) = Some x"

text \<open>
  Modelled from the spec: the types \<open>User\<close>, \<open>InsertUser\<close>, \<open>Service\<close>,
  \<open>InsertService\<close>, \<open>Order\<close> and \<open>InsertOrder\<close> are imported from a schema module
  that is not part of the sources.  The fields are those of the data model in the
  specification; the insert types are the entity types without the fields the create
  methods assign themselves.
\<close>

record insert_user =
  iu_username :: string
  iu_password :: string
  iu_name :: string
  iu_email :: string
  iu_phone :: "string js_opt"
  iu_address :: "string js_opt"
  iu_referral_code :: "string js_opt"
  iu_referral_rewards :: "nat js_opt"

record user =
  u_id :: nat
  username :: string
  password :: string
  user_name :: string
  email :: string
  phone :: "string option"
  address :: "string option"
  role :: string
  referral_code :: "string js_opt"
  referral_rewards :: "nat js_opt"
  user_created_at :: nat

record insert_service =
  is_name :: string
  is_description :: string
  is_category :: string
  is_price :: nat
  is_processing_time :: string
  is_requirements :: string
  is_icon :: string
  is_badge :: "string js_opt"
  is_badge_color :: "string js_opt"

record service =
  s_id :: nat
  service_name :: string
  description :: string
  category :: string
  price :: nat
  processing_time :: string
  requirements :: string
  icon :: string
  badge :: "string option"
  badge_color :: "string option"
  service_created_at :: nat

record insert_order =
  io_user_id :: nat

record order =
  o_id :: nat
  user_id :: nat
  status :: string
  payment_status :: string
  created_at :: nat
  updated_at :: nat

record mem_storage =
  users :: "(nat \<times> user) list"
  services :: "(nat \<times> service) list"
  orders :: "(nat \<times> order) list"
  userIdCounter :: nat
  serviceIdCounter :: nat
  orderIdCounter :: nat

section \<open>Users\<close>

definition getUser :: "nat \<Rightarrow> mem_storage \<Rightarrow> user option" where
  "getUser i st = map_of (users st) i"

text \<open>
  \<open>String.prototype.toLowerCase\<close> is a function of the language and a parameter of the
  methods that call it.  \<open>Array.prototype.find\<close> is \<open>List.find\<close>: the first element that
  satisfies the test.
\<close>

definition getUserByUsername ::
  "(string \<Rightarrow> string) \<Rightarrow> string \<Rightarrow> mem_storage \<Rightarrow> user option" where
  "getUserByUsername toLowerCase q st =
     find (\<lambda>u. toLowerCase (username u) = toLowerCase q) (map snd (users st))"


definition createUser :: "nat \<Rightarrow> insert_user \<Rightarrow> mem_storage \<Rightarrow> user \<times> mem_storage" where
  "createUser now insertUser st =
     (let i = userIdCounter st;
          st1 = st\<lparr>userIdCounter := userIdCounter st + 1\<rparr>;
          u = \<lparr>u_id = i,
               username = iu_username insertUser,
               password = iu_password insertUser,
               user_name = iu_name insertUser,
               email = iu_email insertUser,
               phone = undefined_to_null (iu_phone insertUser),
               address = undefined_to_null (iu_address insertUser),
               role = ''user'',
               referral_code = iu_referral_code insertUser,
               referral_rewards = iu_referral_rewards insertUser,
               user_created_at = now\<rparr>
      in (u, st1\<lparr>users := AList.update i u (users st1)\<rparr>))"

text \<open>
  \<open>initializeTestUser\<close> runs after construction.  \<open>hashPassword\<close> comes from the
  authentication module and is a parameter, as is \<open>toLowerCase\<close>, which the lookup of
  the test user needs; \<open>now1\<close> and \<open>now2\<close> are the clock readings of
  the two \<open>createUser\<close> calls.  The method is taken as one step (its awaits are not
  interleaved with other calls).  The method itself returns nothing; the first component
  of the result lists the users that its calls of \<open>createUser\<close> returned.
\<close>

definition initializeTestUser ::
  "(string \<Rightarrow> string) \<Rightarrow> (string \<Rightarrow> string) \<Rightarrow> nat \<Rightarrow> nat \<Rightarrow> mem_storage \<Rightarrow>
     user list \<times> mem_storage" where
  "initializeTestUser toLowerCase hashPassword now1 now2 st =
     (case getUserByUsername toLowerCase ''testuser'' st of
        Some existingUser \<Rightarrow> ([], st)
      | None \<Rightarrow>
          (let (normalUser, st1) = createUser now1
                 \<lparr>iu_username = ''testuser'',
                  iu_password = hashPassword ''password123'',
                  iu_name = ''Test User'',
                  iu_email = ''test@example.com'',
                  iu_phone = Defined ''9876543210'',
                  iu_address = Defined ''Test Address, Mumbai, India'',
                  iu_referral_code = Undefined,
                  iu_referral_rewards = Undefined\<rparr> st;
               (adminUser, st2) = createUser now2
                 \<lparr>iu_username = ''admin'',
                  iu_password = hashPassword ''admin123'',
                  iu_name = ''Admin User'',
                  iu_email = ''admin@quicktech.com'',
                  iu_phone = Defined ''9876543211'',
                  iu_address = Defined ''Admin Office, Delhi, India'',
                  iu_referral_code = Undefined,
                  iu_referral_rewards = Undefined\<rparr> st1;
               updatedAdmin = adminUser\<lparr>role := ''admin''\<rparr>
           in ([normalUser, adminUser],
               st2\<lparr>users := AList.update (u_id adminUser) updatedAdmin (users st2)\<rparr>)))"

section \<open>Services\<close>

definition getServicesByCategory :: "string \<Rightarrow> mem_storage \<Rightarrow> service list" where
  "getServicesByCategory c st = filter (\<lambda>s. category s = c) (map snd (services st))"

definition getService :: "nat \<Rightarrow> mem_storage \<Rightarrow> service option" where
  "getService i st = map_of (services st) i"

text \<open>The object literal that \<open>createService\<close> builds for the id \<open>i\<close>.\<close>

definition new_service :: "nat \<Rightarrow> nat \<Rightarrow> insert_service \<Rightarrow> service" where
  "new_service i now insertService =
     \<lparr>s_id = i,
      service_name = is_name insertService,
      description = is_description insertService,
      category = is_category insertService,
      price = is_price insertService,
      processing_time = is_processing_time insertService,
      requirements = is_requirements insertService,
      icon = is_icon insertService,
      badge = undefined_to_null (is_badge insertService),
      badge_color = undefined_to_null (is_badge_color insertService),
      service_created_at = now\<rparr>"

definition createService ::
  "nat \<Rightarrow> insert_service \<Rightarrow> mem_storage \<Rightarrow> service \<times> mem_storage" where
  "createService now insertService st =
     (let i = serviceIdCounter st;
          st1 = st\<lparr>serviceIdCounter := serviceIdCounter st + 1\<rparr>;
          s = new_service i now insertService
      in (s, st1\<lparr>services := AList.update i s (services st1)\<rparr>))"

text \<open>
  A loop that calls \<open>createService\<close> on each element of a list, in order, and collects
  the created services: \<open>forEach\<close> in the earlier version (the results are dropped),
  \<open>map\<close> in the later one.  \<open>clock k\<close> is the clock reading of the \<open>k\<close>-th call.
\<close>

fun createServices ::
  "(nat \<Rightarrow> nat) \<Rightarrow> nat \<Rightarrow> insert_service list \<Rightarrow> mem_storage \<Rightarrow> service list \<times> mem_storage" where
  "createServices clock k [] st = ([], st)"
| "createServices clock k (x # xs) st =
     (let (s, st1) = createService (clock k) x st;
          (ss, st2) = createServices clock (Suc k) xs st1
      in (s # ss, st2))"

text \<open>The seed catalogs of the two versions, in source order.\<close>

definition seed_v1 :: "insert_service list" where
  "seed_v1 = [
    \<lparr>is_name = ''Aadhaar-PAN Linking'',
     is_description = ''Quick and secure linking of your Aadhaar card with PAN card as per government regulations.'',
     is_category = ''Identity'',
     is_price = 300,
     is_processing_time = ''1-2 days'',
     is_requirements = ''Aadhaar card, PAN card'',
     is_icon = ''fa-link'',
     is_badge = Defined ''Mandatory Service'',
     is_badge_color = Defined ''red''\<rparr>,
    \<lparr>is_name = ''E-Shram Card'',
     is_description = ''Registration and card generation for unorganized workers under the E-Shram portal.'',
     is_category = ''Employment'',
     is_price = 200,
     is_processing_time = ''2-3 days'',
     is_requirements = ''Aadhaar card, bank details, mobile number'',
     is_icon = ''fa-id-badge'',
     is_badge = Defined ''Worker Benefits'',
     is_badge_color = Defined ''green''\<rparr>,
    \<lparr>is_name = ''Aadhaar Card'',
     is_description = ''New applications, corrections, updates and more for your Aadhaar card.'',
     is_category = ''Identity'',
     is_price = 500,
     is_processing_time = ''2-3 days'',
     is_requirements = ''Address proof, identity proof, and recent photograph'',
     is_icon = ''fa-id-card'',
     is_badge = Defined ''Fast Processing'',
     is_badge_color = Defined ''green''\<rparr>,
    \<lparr>is_name = ''PAN Card'',
     is_description = ''Apply for new PAN card, correction in existing card and PAN-Aadhaar linking.'',
     is_category = ''Identity'',
     is_price = 750,
     is_processing_time = ''4-5 days'',
     is_requirements = ''Identity proof, address proof, and recent photograph'',
     is_icon = ''fa-credit-card'',
     is_badge = Defined ''Government Authorized'',
     is_badge_color = Defined ''blue''\<rparr>,
    \<lparr>is_name = ''Driving License'',
     is_description = ''New learner's license, permanent license, renewals and international permits.'',
     is_category = ''Licenses'',
     is_price = 1200,
     is_processing_time = ''7-10 days'',
     is_requirements = ''Age proof, address proof, identity proof, and medical certificate'',
     is_icon = ''fa-id-badge'',
     is_badge = Defined ''Complete Assistance'',
     is_badge_color = Defined ''yellow''\<rparr>,
    \<lparr>is_name = ''Passport'',
     is_description = ''New passport application, renewal and other passport-related services.'',
     is_category = ''Travel'',
     is_price = 2500,
     is_processing_time = ''10-15 days'',
     is_requirements = ''Address proof, identity proof, birth certificate, and photographs'',
     is_icon = ''fa-passport'',
     is_badge = Defined ''Priority Service'',
     is_badge_color = Defined ''red''\<rparr>,
    \<lparr>is_name = ''Domicile Certificate'',
     is_description = ''Obtain residence proof certificate from state government.'',
     is_category = ''Certificates'',
     is_price = 1500,
     is_processing_time = ''10-15 days'',
     is_requirements = ''Address proof, identity documents, residence proof'',
     is_icon = ''fa-home'',
     is_badge = Defined ''State Document'',
     is_badge_color = Defined ''purple''\<rparr>,
    \<lparr>is_name = ''Income Certificate'',
     is_description = ''Get income certification for various purposes.'',
     is_category = ''Certificates'',
     is_price = 1200,
     is_processing_time = ''7-10 days'',
     is_requirements = ''Income proof, identity documents, bank statements'',
     is_icon = ''fa-money-bill'',
     is_badge = Defined ''Income Proof'',
     is_badge_color = Defined ''green''\<rparr>,
    \<lparr>is_name = ''CSC Education Services'',
     is_description = ''PMGDISHA digital literacy, skill development courses, NDLM registration and online educational services.'',
     is_category = ''Education'',
     is_price = 400,
     is_processing_time = ''1-2 days'',
     is_requirements = ''Educational details, identity proof, and photographs'',
     is_icon = ''fa-graduation-cap'',
     is_badge = Defined ''Skill Development'',
     is_badge_color = Defined ''blue''\<rparr>,
    \<lparr>is_name = ''CSC Utility Services'',
     is_description = ''Electricity bill payments, mobile/DTH recharges, water bill payments, and other utility services.'',
     is_category = ''Utilities'',
     is_price = 200,
     is_processing_time = ''Same day'',
     is_requirements = ''Bill/connection details and payment amount'',
     is_icon = ''fa-bolt'',
     is_badge = Defined ''Quick Service'',
     is_badge_color = Defined ''yellow''\<rparr>,
    \<lparr>is_name = ''CSC Agriculture Services'',
     is_description = ''PM-KISAN registration, soil health card, crop insurance, and agricultural advisory services.'',
     is_category = ''Agriculture'',
     is_price = 350,
     is_processing_time = ''2-4 days'',
     is_requirements = ''Land records, identity proof, and bank account details'',
     is_icon = ''fa-seedling'',
     is_badge = Defined ''Farmer Support'',
     is_badge_color = Defined ''green''\<rparr>,
    \<lparr>is_name = ''CSC G2C Services'',
     is_description = ''Government to Citizen services including welfare schemes, MGNREGA job cards, land records, and social security pensions.'',
     is_category = ''Government'',
     is_price = 250,
     is_processing_time = ''3-7 days'',
     is_requirements = ''Identity proof, address documents, and scheme-specific requirements'',
     is_icon = ''fa-id-card'',
     is_badge = Defined ''Government Schemes'',
     is_badge_color = Defined ''blue''\<rparr>,
    \<lparr>is_name = ''Caste Certificate'',
     is_description = ''Documentation and verification for SC/ST/OBC categories certification.'',
     is_category = ''Identity'',
     is_price = 300,
     is_processing_time = ''7-10 days'',
     is_requirements = ''Identity proof, residence proof, and previous caste certificates if any'',
     is_icon = ''fa-id-card'',
     is_badge = Defined ''Government Verified'',
     is_badge_color = Defined ''blue''\<rparr>,
    \<lparr>is_name = ''Birth Certificate'',
     is_description = ''Official documentation for proof of birth and age.'',
     is_category = ''Identity'',
     is_price = 400,
     is_processing_time = ''5-7 days'',
     is_requirements = ''Hospital records, parents' ID proof'',
     is_icon = ''fa-baby'',
     is_badge = Defined ''Essential Document'',
     is_badge_color = Defined ''green''\<rparr>,
    \<lparr>is_name = ''Death Certificate'',
     is_description = ''Legal documentation for proof of death.'',
     is_category = ''Legal'',
     is_price = 400,
     is_processing_time = ''3-5 days'',
     is_requirements = ''Medical certificate, deceased's ID proof'',
     is_icon = ''fa-scroll'',
     is_badge = Defined ''Priority Processing'',
     is_badge_color = Defined ''red''\<rparr>,
    \<lparr>is_name = ''Marriage Certificate'',
     is_description = ''Legal proof of marriage registration.'',
     is_category = ''Legal'',
     is_price = 600,
     is_processing_time = ''7-10 days'',
     is_requirements = ''Both parties' ID proof, photographs, witness details'',
     is_icon = ''fa-rings-wedding'',
     is_badge = Defined ''Legal Document'',
     is_badge_color = Defined ''blue''\<rparr>,
    \<lparr>is_name = ''GST Registration'',
     is_description = ''Business registration for Goods and Services Tax.'',
     is_category = ''Business'',
     is_price = 1000,
     is_processing_time = ''3-5 days'',
     is_requirements = ''Business details, PAN, address proof'',
     is_icon = ''fa-receipt'',
     is_badge = Defined ''Business Essential'',
     is_badge_color = Defined ''purple''\<rparr>,
    \<lparr>is_name = ''ESIC Registration'',
     is_description = ''Employee State Insurance Corporation registration for benefits.'',
     is_category = ''Business'',
     is_price = 800,
     is_processing_time = ''5-7 days'',
     is_requirements = ''Company details, employee information'',
     is_icon = ''fa-shield-alt'',
     is_badge = Defined ''Employee Welfare'',
     is_badge_color = Defined ''green''\<rparr>,
    \<lparr>is_name = ''PF Registration'',
     is_description = ''Provident Fund registration for retirement benefits.'',
     is_category = ''Business'',
     is_price = 800,
     is_processing_time = ''5-7 days'',
     is_requirements = ''Company registration, employee details'',
     is_icon = ''fa-piggy-bank'',
     is_badge = Defined ''Retirement Security'',
     is_badge_color = Defined ''blue''\<rparr>,
    \<lparr>is_name = ''ITR Filing'',
     is_description = ''Income Tax Return filing services.'',
     is_category = ''Finance'',
     is_price = 500,
     is_processing_time = ''2-3 days'',
     is_requirements = ''Income statements, investment proofs, PAN'',
     is_icon = ''fa-file-invoice-dollar'',
     is_badge = Defined ''Tax Compliance'',
     is_badge_color = Defined ''green''\<rparr>,
    \<lparr>is_name = ''PMAY Application'',
     is_description = ''Pradhan Mantri Awas Yojana housing scheme assistance.'',
     is_category = ''Welfare'',
     is_price = 300,
     is_processing_time = ''10-15 days'',
     is_requirements = ''Income proof, property details, Aadhaar'',
     is_icon = ''fa-home'',
     is_badge = Defined ''Housing Scheme'',
     is_badge_color = Defined ''blue''\<rparr>,
    \<lparr>is_name = ''Ayushman Bharat Card'',
     is_description = ''Health insurance under PM-JAY scheme.'',
     is_category = ''Healthcare'',
     is_price = 200,
     is_processing_time = ''5-7 days'',
     is_requirements = ''Income certificate, Aadhaar, family details'',
     is_icon = ''fa-heart'',
     is_badge = Defined ''Healthcare'',
     is_badge_color = Defined ''red''\<rparr>,
    \<lparr>is_name = ''Pension Certificate'',
     is_description = ''Documentation for government pensions and benefits.'',
     is_category = ''Welfare'',
     is_price = 400,
     is_processing_time = ''7-10 days'',
     is_requirements = ''Service records, Aadhaar, bank details'',
     is_icon = ''fa-hand-holding-heart'',
     is_badge = Defined ''Senior Care'',
     is_badge_color = Defined ''purple''\<rparr>,
    \<lparr>is_name = ''MGNREGA Job Card'',
     is_description = ''Rural employment scheme registration.'',
     is_category = ''Employment'',
     is_price = 100,
     is_processing_time = ''3-5 days'',
     is_requirements = ''Address proof, photographs, bank details'',
     is_icon = ''fa-users'',
     is_badge = Defined ''Rural Employment'',
     is_badge_color = Defined ''green''\<rparr>,
    \<lparr>is_name = ''Property Registration'',
     is_description = ''Legal documentation of property ownership.'',
     is_category = ''Property'',
     is_price = 2000,
     is_processing_time = ''15-20 days'',
     is_requirements = ''Property documents, ID proof, payment details'',
     is_icon = ''fa-building'',
     is_badge = Defined ''Legal Property'',
     is_badge_color = Defined ''blue''\<rparr>,
    \<lparr>is_name = ''Land Records'',
     is_description = ''Online access to land ownership records (Bhulekh).'',
     is_category = ''Property'',
     is_price = 300,
     is_processing_time = ''2-3 days'',
     is_requirements = ''Property details, ID proof'',
     is_icon = ''fa-map'',
     is_badge = Defined ''Digital Records'',
     is_badge_color = Defined ''green''\<rparr>,
    \<lparr>is_name = ''Utility Connections'',
     is_description = ''New connections and bill management for electricity, water, and gas.'',
     is_category = ''Utilities'',
     is_price = 600,
     is_processing_time = ''7-10 days'',
     is_requirements = ''Address proof, ID proof, property documents'',
     is_icon = ''fa-plug'',
     is_badge = Defined ''Essential Services'',
     is_badge_color = Defined ''purple''\<rparr>,
    \<lparr>is_name = ''CSC Healthcare Services'',
     is_description = ''Telemedicine, Ayushman Bharat registration, health insurance, and wellness services through CSC-PHCs.'',
     is_category = ''Healthcare'',
     is_price = 300,
     is_processing_time = ''1-3 days'',
     is_requirements = ''Health records, identity proof, and family details'',
     is_icon = ''fa-stethoscope'',
     is_badge = Defined ''Health Support'',
     is_badge_color = Defined ''red''\<rparr>,
    \<lparr>is_name = ''CSC Digital Services'',
     is_description = ''Digital India services including Digi Locker, digital signatures, WiFi Choupal, and PMGDISHA training.'',
     is_category = ''Digital'',
     is_price = 450,
     is_processing_time = ''1-2 days'',
     is_requirements = ''Digital documents, identity proof, and email address'',
     is_icon = ''fa-mobile-alt'',
     is_badge = Defined ''Digital Empowerment'',
     is_badge_color = Defined ''purple''\<rparr>,
    \<lparr>is_name = ''CSC Travel Services'',
     is_description = ''IRCTC train ticket booking, bus tickets, flight tickets, and hotel bookings through CSC centers.'',
     is_category = ''Travel'',
     is_price = 250,
     is_processing_time = ''Same day'',
     is_requirements = ''Travel details, identity proof, and payment information'',
     is_icon = ''fa-train'',
     is_badge = Defined ''Travel Solutions'',
     is_badge_color = Defined ''orange''\<rparr>,
    \<lparr>is_name = ''Certificates'',
     is_description = ''Birth, death, income, caste, domicile and other essential certificates.'',
     is_category = ''Government'',
     is_price = 400,
     is_processing_time = ''2-4 days'',
     is_requirements = ''Supporting documents depending on certificate type'',
     is_icon = ''fa-scroll'',
     is_badge = Defined ''Digital Delivery'',
     is_badge_color = Defined ''green''\<rparr>,
    \<lparr>is_name = ''Property Documents'',
     is_description = ''Land records, property registration, mutation and related services.'',
     is_category = ''Property'',
     is_price = 3000,
     is_processing_time = ''15-20 days'',
     is_requirements = ''Property details, ownership proof, and identity documents'',
     is_icon = ''fa-house-user'',
     is_badge = Defined ''Expert Assistance'',
     is_badge_color = Defined ''blue''\<rparr>,
    \<lparr>is_name = ''Business Services'',
     is_description = ''GST registration, company registration, MSME registration and more.'',
     is_category = ''Business'',
     is_price = 5000,
     is_processing_time = ''7-14 days'',
     is_requirements = ''Business details, address proof, and identity documents'',
     is_icon = ''fa-briefcase'',
     is_badge = Defined ''Business Solutions'',
     is_badge_color = Defined ''indigo''\<rparr>,
    \<lparr>is_name = ''Domicile Certificate'',
     is_description = ''Obtain residence proof certificate from state government.'',
     is_category = ''Certificates'',
     is_price = 1500,
     is_processing_time = ''10-15 days'',
     is_requirements = ''Address proof, identity documents, residence proof'',
     is_icon = ''fa-home'',
     is_badge = Defined ''State Document'',
     is_badge_color = Defined ''purple''\<rparr>,
    \<lparr>is_name = ''Income Certificate'',
     is_description = ''Get income certification for various purposes.'',
     is_category = ''Certificates'',
     is_price = 1200,
     is_processing_time = ''7-10 days'',
     is_requirements = ''Income proof, identity documents, bank statements'',
     is_icon = ''fa-money-bill'',
     is_badge = Defined ''Income Proof'',
     is_badge_color = Defined ''green''\<rparr>,
    \<lparr>is_name = ''Voter ID'',
     is_description = ''Apply for new voter ID or update existing one.'',
     is_category = ''Identity'',
     is_price = 800,
     is_processing_time = ''20-30 days'',
     is_requirements = ''Age proof, address proof, photographs'',
     is_icon = ''fa-id-card'',
     is_badge = Defined ''Electoral ID'',
     is_badge_color = Defined ''blue''\<rparr>,
    \<lparr>is_name = ''Ration Card'',
     is_description = ''Apply for new ration card or modify existing one.'',
     is_category = ''Identity'',
     is_price = 1000,
     is_processing_time = ''15-20 days'',
     is_requirements = ''Family details, income proof, address proof'',
     is_icon = ''fa-card-list'',
     is_badge = Defined ''Essential Document'',
     is_badge_color = Defined ''orange''\<rparr>]"

definition seed_v2 :: "insert_service list" where
  "seed_v2 = [
    \<lparr>is_name = ''Voter ID Card (EPIC)'',
     is_description = ''Apply for new voter ID card or make corrections to existing one'',
     is_category = ''Identity'',
     is_price = 100,
     is_processing_time = ''15-20 days'',
     is_requirements = ''Age proof, address proof, photographs'',
     is_icon = ''fa-id-card'',
     is_badge = Defined ''Electoral Document'',
     is_badge_color = Defined ''blue''\<rparr>,
    \<lparr>is_name = ''Aadhaar Card'',
     is_description = ''Apply for new Aadhaar card or update existing one'',
     is_category = ''Identity'',
     is_price = 50,
     is_processing_time = ''10-15 days'',
     is_requirements = ''Proof of Identity, Proof of Address, Birth Certificate'',
     is_icon = ''fa-id-card'',
     is_badge = Defined ''Essential'',
     is_badge_color = Defined ''green''\<rparr>,
    \<lparr>is_name = ''PAN Card'',
     is_description = ''Apply for new PAN card or request a duplicate'',
     is_category = ''Identity'',
     is_price = 150,
     is_processing_time = ''7-10 days'',
     is_requirements = ''Identity proof, address proof, photographs'',
     is_icon = ''fa-credit-card'',
     is_badge = Defined ''Tax Document'',
     is_badge_color = Defined ''orange''\<rparr>,
    \<lparr>is_name = ''Birth Certificate'',
     is_description = ''Apply for birth certificate or get duplicate copy'',
     is_category = ''Identity'',
     is_price = 300,
     is_processing_time = ''5-7 days'',
     is_requirements = ''Hospital records, parents' IDs'',
     is_icon = ''fa-baby'',
     is_badge = Defined ''Essential'',
     is_badge_color = Defined ''green''\<rparr>,
    \<lparr>is_name = ''Income Certificate'',
     is_description = ''Apply for income certificate for various purposes'',
     is_category = ''Financial'',
     is_price = 200,
     is_processing_time = ''7-10 days'',
     is_requirements = ''Salary slips, bank statements, employment proof'',
     is_icon = ''fa-money-bill'',
     is_badge = Defined ''Income Proof'',
     is_badge_color = Defined ''green''\<rparr>,
    \<lparr>is_name = ''Domicile Certificate'',
     is_description = ''Get proof of residence certificate'',
     is_category = ''Identity'',
     is_price = 150,
     is_processing_time = ''10-15 days'',
     is_requirements = ''Address proof, residence proof, identity documents'',
     is_icon = ''fa-home'',
     is_badge = Defined ''Residence Proof'',
     is_badge_color = Defined ''blue''\<rparr>,
    \<lparr>is_name = ''Passport'',
     is_description = ''Apply for new passport or renewal'',
     is_category = ''Identity'',
     is_price = 2500,
     is_processing_time = ''30-45 days'',
     is_requirements = ''Identity proof, address proof, birth certificate'',
     is_icon = ''fa-passport'',
     is_badge = Defined ''Travel Document'',
     is_badge_color = Defined ''blue''\<rparr>,
    \<lparr>is_name = ''Marriage Certificate'',
     is_description = ''Apply for marriage registration certificate'',
     is_category = ''Legal'',
     is_price = 500,
     is_processing_time = ''15-20 days'',
     is_requirements = ''Marriage photos, witness IDs, age proof'',
     is_icon = ''fa-rings-wedding'',
     is_badge = Defined ''Legal Document'',
     is_badge_color = Defined ''purple''\<rparr>,
    \<lparr>is_name = ''GST Registration'',
     is_description = ''Register your business under GST'',
     is_category = ''Business'',
     is_price = 1000,
     is_processing_time = ''3-5 days'',
     is_requirements = ''Business PAN, address proof, bank details'',
     is_icon = ''fa-receipt'',
     is_badge = Defined ''Business'',
     is_badge_color = Defined ''indigo''\<rparr>,
    \<lparr>is_name = ''Aadhaar-PAN Linking'',
     is_description = ''Quick and secure linking of your Aadhaar card with PAN card'',
     is_category = ''Identity'',
     is_price = 50,
     is_processing_time = ''1-2 days'',
     is_requirements = ''Aadhaar card, PAN card'',
     is_icon = ''fa-link'',
     is_badge = Defined ''Essential'',
     is_badge_color = Defined ''blue''\<rparr>,
    \<lparr>is_name = ''E-Shram Card'',
     is_description = ''Registration for unorganized workers under E-Shram portal'',
     is_category = ''Employment'',
     is_price = 100,
     is_processing_time = ''2-3 days'',
     is_requirements = ''Aadhaar card, bank details, employment details'',
     is_icon = ''fa-id-badge'',
     is_badge = Defined ''Labor Welfare'',
     is_badge_color = Defined ''green''\<rparr>]"

text \<open>Earlier version: \<open>initializeServices\<close> inserts the catalog into the store.\<close>

definition initializeServices_v1 :: "(nat \<Rightarrow> nat) \<Rightarrow> mem_storage \<Rightarrow> mem_storage" where
  "initializeServices_v1 clock st = snd (createServices clock 0 seed_v1 st)"

definition getServices_v1 :: "mem_storage \<Rightarrow> service list" where
  "getServices_v1 st = map snd (services st)"

text \<open>
  Later version: \<open>initializeServices\<close> only returns the catalog, and \<open>getServices\<close>
  maps \<open>createService\<close> over its entries.  \<open>createService\<close> is asynchronous and
  \<open>getServices\<close> does not await its results: each call changes the store at once, and
  what \<open>getServices\<close> returns is the array of the promise objects, not of the services.
\<close>

datatype 'a promise = Promise 'a

definition initializeServices_v2 :: "insert_service list" where
  "initializeServices_v2 = seed_v2"

definition getServices_v2 ::
  "(nat \<Rightarrow> nat) \<Rightarrow> mem_storage \<Rightarrow> service promise list \<times> mem_storage" where
  "getServices_v2 clock st =
     (let servicesList = initializeServices_v2;
          (created, st1) = createServices clock 0 servicesList st
      in (map Promise created, st1))"

section \<open>Orders\<close>

definition getOrders :: "mem_storage \<Rightarrow> order list" where
  "getOrders st = map snd (orders st)"

definition getOrdersByUserId :: "nat \<Rightarrow> mem_storage \<Rightarrow> order list" where
  "getOrdersByUserId userId st = filter (\<lambda>ord. user_id ord = userId) (map snd (orders st))"

definition getOrder :: "nat \<Rightarrow> mem_storage \<Rightarrow> order option" where
  "getOrder i st = map_of (orders st) i"

definition createOrder :: "nat \<Rightarrow> insert_order \<Rightarrow> mem_storage \<Rightarrow> order \<times> mem_storage" where
  "createOrder now insertOrder st =
     (let i = orderIdCounter st;
          st1 = st\<lparr>orderIdCounter := orderIdCounter st + 1\<rparr>;
          ord = \<lparr>o_id = i,
                 user_id = io_user_id insertOrder,
                 status = ''pending'',
                 payment_status = ''pending'',
                 created_at = now,
                 updated_at = now\<rparr>
      in (ord, st1\<lparr>orders := AList.update i ord (orders st1)\<rparr>))"

definition updateOrderStatus ::
  "nat \<Rightarrow> nat \<Rightarrow> string \<Rightarrow> mem_storage \<Rightarrow> order option \<times> mem_storage" where
  "updateOrderStatus now i new_status st =
     (case map_of (orders st) i of
        None \<Rightarrow> (None, st)
      | Some ord \<Rightarrow>
          (let updatedOrder = ord\<lparr>status := new_status, updated_at := now\<rparr>
           in (Some updatedOrder, st\<lparr>orders := AList.update i updatedOrder (orders st)\<rparr>)))"

definition updatePaymentStatus ::
  "nat \<Rightarrow> nat \<Rightarrow> string \<Rightarrow> mem_storage \<Rightarrow> order option \<times> mem_storage" where
  "updatePaymentStatus now i new_status st =
     (case map_of (orders st) i of
        None \<Rightarrow> (None, st)
      | Some ord \<Rightarrow>
          (let updatedOrder = ord\<lparr>payment_status := new_status, updated_at := now\<rparr>
           in (Some updatedOrder, st\<lparr>orders := AList.update i updatedOrder (orders st)\<rparr>)))"

section \<open>Construction\<close>

definition empty_storage :: mem_storage where
  "empty_storage =
     \<lparr>users = [], services = [], orders = [],
      userIdCounter = 1, serviceIdCounter = 1, orderIdCounter = 1\<rparr>"

text \<open>
  The constructor creates the empty maps, sets the counters to 1 and calls
  \<open>initializeServices\<close>.  Its call of \<open>initializeTestUser\<close> suspends at the first
  \<open>await\<close>, so the test users are created by a later step.  In the later version the
  list returned by \<open>initializeServices\<close> is dropped.
\<close>

definition constructor_v1 :: "(nat \<Rightarrow> nat) \<Rightarrow> mem_storage" where
  "constructor_v1 clock = initializeServices_v1 clock empty_storage"

definition constructor_v2 :: mem_storage where
  "constructor_v2 = (let dropped = initializeServices_v2 in empty_storage)"

section \<open>Sequences of calls\<close>

text \<open>
  The calls that change a store, with the clock readings they take; \<open>InitializeTestUser\<close>
  also carries the functions \<open>toLowerCase\<close> and \<open>hashPassword\<close> it uses.  The read-only
  methods leave the store as it is and are not listed.  In the earlier version
  \<open>getServices\<close> is read-only as well.
\<close>

datatype version = Earlier | Later

datatype call =
    CreateUser nat insert_user
  | InitializeTestUser "string \<Rightarrow> string" "string \<Rightarrow> string" nat nat
  | CreateService nat insert_service
  | GetServices "nat \<Rightarrow> nat"
  | CreateOrder nat insert_order
  | UpdateOrderStatus nat nat string
  | UpdatePaymentStatus nat nat string

definition new_MemStorage :: "version \<Rightarrow> (nat \<Rightarrow> nat) \<Rightarrow> mem_storage" where
  "new_MemStorage v clock = (case v of Earlier \<Rightarrow> constructor_v1 clock | Later \<Rightarrow> constructor_v2)"

text \<open>
  One call: the users returned by the calls of \<open>createUser\<close> it makes, and the store
  it leaves.
\<close>

fun step :: "version \<Rightarrow> call \<Rightarrow> mem_storage \<Rightarrow> user list \<times> mem_storage" where
  "step v (CreateUser now iu) st = (let (u, st1) = createUser now iu st in ([u], st1))"
| "step v (InitializeTestUser lc h now1 now2) st = initializeTestUser lc h now1 now2 st"
| "step v (CreateService now x) st = ([], snd (createService now x st))"
| "step v (GetServices clock) st =
     (case v of Earlier \<Rightarrow> ([], st) | Later \<Rightarrow> ([], snd (getServices_v2 clock st)))"
| "step v (CreateOrder now x) st = ([], snd (createOrder now x st))"
| "step v (UpdateOrderStatus now i s) st = ([], snd (updateOrderStatus now i s st))"
| "step v (UpdatePaymentStatus now i s) st = ([], snd (updatePaymentStatus now i s st))"

fun run :: "version \<Rightarrow> call list \<Rightarrow> mem_storage \<Rightarrow> user list \<times> mem_storage" where
  "run v [] st = ([], st)"
| "run v (c # cs) st =
     (let (us, st1) = step v c st;
          (us', st2) = run v cs st1
      in (us @ us', st2))"

section \<open>Profile card\<close>

text \<open>
  The component state: the user of the authentication context, the two \<open>useState\<close>
  cells, and, as the observable effects, the toasts shown and the requests sent so far.
\<close>

record form_data =
  fd_name :: string
  fd_email :: string
  fd_phone :: string

record toast =
  title :: string
  toast_description :: string
  variant :: "string option"

datatype json = JString string | JObject "(string \<times> json) list"

record request =
  url :: string
  http_method :: string
  headers :: "(string \<times> string) list"
  body :: string
  credentials :: string

record profile_card =
  auth_user :: "user option"
  isEditing :: bool
  formData :: form_data
  toasts :: "toast list"
  requests :: "request list"

text \<open>The expression \<open>x || ""\<close> on an optional string.\<close>

fun or_empty :: "string option \<Rightarrow> string" where
  "or_empty None = ''''"
| "or_empty (Some s) = s"

text \<open>The initial state of the component for the user \<open>u\<close> of the context.\<close>

definition ProfileCard_init :: "user option \<Rightarrow> profile_card" where
  "ProfileCard_init u =
     \<lparr>auth_user = u,
      isEditing = False,
      formData = \<lparr>fd_name = or_empty (map_option user_name u),
                  fd_email = or_empty (map_option email u),
                  fd_phone = or_empty (Option.bind u phone)\<rparr>,
      toasts = [],
      requests = []\<rparr>"

text \<open>
  The outcome of \<open>fetch\<close>: the promise rejects, or it resolves to a response whose
  \<open>ok\<close> flag is given.
\<close>

datatype fetch_result = Rejected | Response bool

text \<open>
  \<open>handleSave\<close>.  \<open>JSON.stringify\<close> is a parameter; it is applied to the object
  \<open>formData\<close>, whose keys are \<open>name\<close>, \<open>email\<close> and \<open>phone\<close> in this order.  The
  request is sent before the outcome is known; a rejected promise and a response that is
  not ok both end in the \<open>catch\<close> block.
\<close>

definition formData_json :: "form_data \<Rightarrow> json" where
  "formData_json fd =
     JObject [(''name'', JString (fd_name fd)),
              (''email'', JString (fd_email fd)),
              (''phone'', JString (fd_phone fd))]"

definition save_failed :: "fetch_result \<Rightarrow> bool" where
  "save_failed r = (case r of Rejected \<Rightarrow> True | Response ok \<Rightarrow> \<not> ok)"

definition handleSave ::
  "(json \<Rightarrow> string) \<Rightarrow> fetch_result \<Rightarrow> profile_card \<Rightarrow> profile_card" where
  "handleSave JSON_stringify r st =
     (let st1 = st\<lparr>requests := requests st @
                  [\<lparr>url = ''/api/user/profile'',
                    http_method = ''PUT'',
                    headers = [(''Content-Type'', ''application/json'')],
                    body = JSON_stringify (formData_json (formData st)),
                    credentials = ''include''\<rparr>]\<rparr>
      in if save_failed r
         then st1\<lparr>toasts := toasts st1 @
                  [\<lparr>title = ''Update Failed'',
                    toast_description = ''Failed to update profile. Please try again.'',
                    variant = Some ''destructive''\<rparr>]\<rparr>
         else st1\<lparr>toasts := toasts st1 @
                  [\<lparr>title = ''Profile Updated'',
                    toast_description = ''Your profile has been successfully updated.'',
                    variant = None\<rparr>],
                  isEditing := False\<rparr>)"

text \<open>
  What the component renders: in edit mode three inputs holding the form state, otherwise
  three paragraphs holding the values of the context's user.
\<close>

datatype field_view = Input string | Paragraph string

record view =
  name_view :: field_view
  email_view :: field_view
  phone_view :: field_view
  edit_buttons :: bool

definition or_not_provided :: "string option \<Rightarrow> string" where
  "or_not_provided x = (case x of None \<Rightarrow> ''Not provided''
                        | Some s \<Rightarrow> if s = '''' then ''Not provided'' else s)"

definition render :: "profile_card \<Rightarrow> view" where
  "render st =
     \<lparr>name_view = (if isEditing st then Input (fd_name (formData st))
                   else Paragraph (or_empty (map_option user_name (auth_user st)))),
      email_view = (if isEditing st then Input (fd_email (formData st))
                    else Paragraph (or_empty (map_option email (auth_user st)))),
      phone_view = (if isEditing st then Input (fd_phone (formData st))
                    else Paragraph (or_not_provided (Option.bind (auth_user st) phone))),
      edit_buttons = isEditing st\<rparr>"

text \<open>
  The events of the component.  A control that is not rendered cannot be used: the
  inputs and the buttons Save and Cancel exist in edit mode only, the button Edit
  outside of it.
\<close>

datatype event =
    ClickEdit
  | ClickCancel
  | ChangeName string
  | ChangeEmail string
  | ChangePhone string
  | ClickSave fetch_result

fun handle :: "(json \<Rightarrow> string) \<Rightarrow> event \<Rightarrow> profile_card \<Rightarrow> profile_card" where
  "handle js ClickEdit st = (if isEditing st then st else st\<lparr>isEditing := True\<rparr>)"
| "handle js ClickCancel st = (if isEditing st then st\<lparr>isEditing := False\<rparr> else st)"
| "handle js (ChangeName v) st =
     (if isEditing st then st\<lparr>formData := (formData st)\<lparr>fd_name := v\<rparr>\<rparr> else st)"
| "handle js (ChangeEmail v) st =
     (if isEditing st then st\<lparr>formData := (formData st)\<lparr>fd_email := v\<rparr>\<rparr> else st)"
| "handle js (ChangePhone v) st =
     (if isEditing st then st\<lparr>formData := (formData st)\<lparr>fd_phone := v\<rparr>\<rparr> else st)"
| "handle js (ClickSave r) st = (if isEditing st then handleSave js r st else st)"

section \<open>Referral card\<close>

text \<open>A template literal turns an interpolated value into text.\<close>

fun template_text :: "string js_opt \<Rightarrow> string" where
  "template_text Undefined = ''undefined''"
| "template_text Null = ''null''"
| "template_text (Defined s) = s"

text \<open>The optional chain \<open>user?.referral_code\<close>.\<close>

definition user_referral_code :: "user option \<Rightarrow> string js_opt" where
  "user_referral_code u = (case u of None \<Rightarrow> Undefined | Some x \<Rightarrow> referral_code x)"

text \<open>\<open>origin\<close> is \<open>window.location.origin\<close>.\<close>

definition referralLink :: "string \<Rightarrow> user option \<Rightarrow> string" where
  "referralLink origin u = origin @ ''/auth?ref='' @ template_text (user_referral_code u)"

record referral_card =
  rc_user :: "user option"
  copied :: bool
  rc_toasts :: "toast list"
  clipboard :: "string option"
  pending_timeouts :: nat

text \<open>
  \<open>copyToClipboard\<close>; \<open>write_ok\<close> tells whether \<open>navigator.clipboard.writeText\<close>
  resolves.  The timer started on success is counted in \<open>pending_timeouts\<close> and resets
  \<open>copied\<close> when it fires.
\<close>

definition copyToClipboard :: "string \<Rightarrow> bool \<Rightarrow> referral_card \<Rightarrow> referral_card" where
  "copyToClipboard origin write_ok st =
     (if write_ok
      then st\<lparr>clipboard := Some (referralLink origin (rc_user st)),
              copied := True,
              rc_toasts := rc_toasts st @
                [\<lparr>title = ''Copied!'',
                  toast_description = ''Referral link copied to clipboard'',
                  variant = None\<rparr>],
              pending_timeouts := pending_timeouts st + 1\<rparr>
      else st\<lparr>rc_toasts := rc_toasts st @
                [\<lparr>title = ''Error'',
                  toast_description = ''Failed to copy referral link'',
                  variant = Some ''destructive''\<rparr>]\<rparr>)"

definition timeout_fired :: "referral_card \<Rightarrow> referral_card" where
  "timeout_fired st =
     (if pending_timeouts st = 0 then st
      else st\<lparr>copied := False, pending_timeouts := pending_timeouts st - 1\<rparr>)"

section \<open>Invariants of the store\<close>

text \<open>
  The keys of the user map are pairwise distinct, every user is stored under its own id,
  and every id in use lies below the counter.
\<close>

definition users_inv :: "mem_storage \<Rightarrow> bool" where
  "users_inv st = (distinct (map fst (users st)) \<and>
     list_all (\<lambda>(k, u). u_id u = k \<and> k < userIdCounter st) (users st))"

text \<open>
  What a step from \<open>st\<close> to \<open>st'\<close> that returned the users \<open>us\<close> guarantees: the
  invariant again, and ids that increase and lie between the two counter values.
\<close>

definition step_ok :: "mem_storage \<Rightarrow> user list \<Rightarrow> mem_storage \<Rightarrow> bool" where
  "step_ok st us st' =
     (users_inv st' \<and> sorted_wrt (<) (map u_id us) \<and>
      list_all (\<lambda>u. userIdCounter st \<le> u_id u \<and> u_id u < userIdCounter st') us \<and>
      userIdCounter st \<le> userIdCounter st')"

text \<open>The same invariant for the service map.\<close>

definition services_inv :: "mem_storage \<Rightarrow> bool" where
  "services_inv st = (distinct (map fst (services st)) \<and>
     list_all (\<lambda>(k, s). s_id s = k \<and> k < serviceIdCounter st) (services st))"

section \<open>The services a catalog gives\<close>

text \<open>
  The services that a run of \<open>createService\<close> over a catalog creates when the counter
  stands at \<open>n\<close>: the entries in catalog order, with consecutive ids from \<open>n\<close> on and
  the clock readings \<open>clock k\<close>, \<open>clock (k + 1)\<close>, and so on.
\<close>

fun catalog_services :: "(nat \<Rightarrow> nat) \<Rightarrow> nat \<Rightarrow> nat \<Rightarrow> insert_service list \<Rightarrow> service list" where
  "catalog_services clock k n [] = []"
| "catalog_services clock k n (x # xs) =
     new_service n (clock k) x # catalog_services clock (Suc k) (Suc n) xs"

text \<open>A list of services as entries of the map, each under its own id.\<close>

definition stored :: "service list \<Rightarrow> (nat \<times> service) list" where
  "stored ss = map (\<lambda>s. (s_id s, s)) ss"

section \<open>Example values\<close>

text \<open>
  Lower case on text of the 8-bit range (ISO 8859-1), to put in the place of
  \<open>toLowerCase\<close> in the examples: the capitals \<open>A\<close> to \<open>Z\<close> and those from U+00C0 to
  U+00DE, the multiplication sign U+00D7 apart, move up by 32; every other character is
  kept.
\<close>

definition is_upper :: "char \<Rightarrow> bool" where
  "is_upper c =
     ((65::nat) \<le> of_char c \<and> of_char c \<le> (90::nat) \<or>
      (192::nat) \<le> of_char c \<and> of_char c \<le> (222::nat) \<and> of_char c \<noteq> (215::nat))"

definition lower_char :: "char \<Rightarrow> char" where
  "lower_char c = (if is_upper c then char_of (of_char c + (32::nat)) else c)"

definition toLowerCase_latin1 :: "string \<Rightarrow> string" where
  "toLowerCase_latin1 s = map lower_char s"

text \<open>
  On such text two strings are equal up to letter case when they have the same length
  and agree position by position, except that a capital may stand against its small
  form.
\<close>

definition same_letter :: "char \<Rightarrow> char \<Rightarrow> bool" where
  "same_letter a b =
     (a = b \<or> (is_upper a \<and> b = lower_char a) \<or> (is_upper b \<and> a = lower_char b))"

definition equal_up_to_case :: "string \<Rightarrow> string \<Rightarrow> bool" where
  "equal_up_to_case s t = list_all2 same_letter s t"

text \<open>
  A serializer to put in the place of \<open>JSON.stringify\<close> in the examples.  It covers
  text without control characters and escapes the double quote and the backslash.
\<close>

fun quote_ascii :: "string \<Rightarrow> string" where
  "quote_ascii [] = []"
| "quote_ascii (c # cs) =
     (if c = CHR 0x22 \<or> c = CHR 0x5C then CHR 0x5C # c # quote_ascii cs
      else c # quote_ascii cs)"

fun stringify_ascii :: "json \<Rightarrow> string"
  and stringify_fields :: "(string \<times> json) list \<Rightarrow> string" where
  "stringify_ascii (JString s) = CHR 0x22 # quote_ascii s @ [CHR 0x22]"
| "stringify_ascii (JObject kvs) = ''{'' @ stringify_fields kvs @ ''}''"
| "stringify_fields [] = []"
| "stringify_fields ((k, v) # kvs) =
     CHR 0x22 # quote_ascii k @ [CHR 0x22] @ '':'' @ stringify_ascii v @
     (if kvs = [] then [] else '','' @ stringify_fields kvs)"

definition alice :: insert_user where
  "alice = \<lparr>iu_username = ''Alice'', iu_password = ''pw'', iu_name = ''Alice A'',
            iu_email = ''Alice@Example.com'', iu_phone = Undefined, iu_address = Null,
            iu_referral_code = Undefined, iu_referral_rewards = Undefined\<rparr>"

definition asha :: user where
  "asha = \<lparr>u_id = 3, username = ''asha'', password = ''x'', user_name = ''Asha'',
           email = ''asha@example.com'', phone = None, address = None, role = ''user'',
           referral_code = Defined ''REF123'', referral_rewards = Undefined,
           user_created_at = 0\<rparr>"


section \<open>Properties of the user map\<close>

lemma update_fresh: "k \<notin> fst ` set al \<Longrightarrow> AList.update k v al = al @ [(k, v)]"
  by (induction al) auto

lemma users_inv_fresh: "users_inv st \<Longrightarrow> userIdCounter st \<notin> fst ` set (users st)"
  by (auto simp: users_inv_def list_all_iff)

lemma createUser_id: "u_id (fst (createUser now iu st)) = userIdCounter st"
  by (simp add: createUser_def Let_def)

lemma createUser_counter: "userIdCounter (snd (createUser now iu st)) = Suc (userIdCounter st)"
  by (simp add: createUser_def Let_def)

lemma createUser_users:
  "users_inv st \<Longrightarrow>
   users (snd (createUser now iu st)) = users st @ [(userIdCounter st, fst (createUser now iu st))]"
  by (simp add: createUser_def Let_def update_fresh users_inv_fresh)

lemma createUser_inv: "users_inv st \<Longrightarrow> users_inv (snd (createUser now iu st))"
  unfolding users_inv_def
  apply (simp add: createUser_users [unfolded users_inv_def] createUser_counter createUser_id)
  apply (auto simp: list_all_iff)
  done

lemma set_alist_update: "set (AList.update k v al) \<subseteq> insert (k, v) (set al)"
  by (induction al) auto

lemma update_same_key_inv:
  "users_inv st \<Longrightarrow> u_id u = k \<Longrightarrow> k < userIdCounter st \<Longrightarrow>
   users_inv (st\<lparr>users := AList.update k u (users st)\<rparr>)"
  unfolding users_inv_def
  using set_alist_update [of k u "users st"]
  by (auto simp: distinct_update list_all_iff)

lemma initializeTestUser_inv:
  assumes "users_inv st" and "initializeTestUser lc h n1 n2 st = (us, st')"
  shows "users_inv st' \<and> sorted_wrt (<) (map u_id us) \<and>
         list_all (\<lambda>u. userIdCounter st \<le> u_id u \<and> u_id u < userIdCounter st') us \<and>
         userIdCounter st \<le> userIdCounter st'"
proof (cases "getUserByUsername lc ''testuser'' st")
  case (Some a)
  with assms show ?thesis by (simp add: initializeTestUser_def)
next
  case None
  define iu1 where "iu1 = \<lparr>iu_username = ''testuser'',
                  iu_password = h ''password123'',
                  iu_name = ''Test User'',
                  iu_email = ''test@example.com'',
                  iu_phone = Defined ''9876543210'',
                  iu_address = Defined ''Test Address, Mumbai, India'',
                  iu_referral_code = Undefined,
                  iu_referral_rewards = (Undefined :: nat js_opt)\<rparr>"
  define iu2 where "iu2 = \<lparr>iu_username = ''admin'',
                  iu_password = h ''admin123'',
                  iu_name = ''Admin User'',
                  iu_email = ''admin@quicktech.com'',
                  iu_phone = Defined ''9876543211'',
                  iu_address = Defined ''Admin Office, Delhi, India'',
                  iu_referral_code = Undefined,
                  iu_referral_rewards = (Undefined :: nat js_opt)\<rparr>"
  define r1 where "r1 = createUser n1 iu1 st"
  define r2 where "r2 = createUser n2 iu2 (snd r1)"
  have eq: "initializeTestUser lc h n1 n2 st =
     ([fst r1, fst r2],
      (snd r2)\<lparr>users := AList.update (u_id (fst r2)) ((fst r2)\<lparr>role := ''admin''\<rparr>) (users (snd r2))\<rparr>)"
    using None by (simp add: initializeTestUser_def r1_def r2_def iu1_def iu2_def split_beta Let_def)
  have i1: "users_inv (snd r1)" using assms(1) by (simp add: r1_def createUser_inv)
  have i2: "users_inv (snd r2)" using i1 by (simp add: r2_def createUser_inv)
  have id1: "u_id (fst r1) = userIdCounter st" by (simp add: r1_def createUser_id)
  have id2: "u_id (fst r2) = Suc (userIdCounter st)"
    by (simp add: r2_def r1_def createUser_id createUser_counter)
  have c2: "userIdCounter (snd r2) = Suc (Suc (userIdCounter st))"
    by (simp add: r2_def r1_def createUser_counter)
  have i3: "users_inv ((snd r2)\<lparr>users := AList.update (u_id (fst r2)) ((fst r2)\<lparr>role := ''admin''\<rparr>) (users (snd r2))\<rparr>)"
    by (rule update_same_key_inv [OF i2]) (simp_all add: id2 c2)
  from assms(2) eq have us: "us = [fst r1, fst r2]"
    and st': "st' = (snd r2)\<lparr>users := AList.update (u_id (fst r2)) ((fst r2)\<lparr>role := ''admin''\<rparr>) (users (snd r2))\<rparr>"
    by simp_all
  show ?thesis using i3 by (simp add: us st' id1 id2 c2)
qed

lemma users_createService [simp]:
  "users (snd (createService now x st)) = users st"
  "userIdCounter (snd (createService now x st)) = userIdCounter st"
  by (simp_all add: createService_def Let_def)

lemma users_createServices:
  "users (snd (createServices clock k xs st)) = users st \<and>
   userIdCounter (snd (createServices clock k xs st)) = userIdCounter st"
  by (induction xs arbitrary: k st) (simp_all add: split_beta Let_def)

lemma users_createOrder [simp]:
  "users (snd (createOrder now x st)) = users st"
  "userIdCounter (snd (createOrder now x st)) = userIdCounter st"
  by (simp_all add: createOrder_def Let_def)

lemma users_updateOrderStatus [simp]:
  "users (snd (updateOrderStatus now i s st)) = users st"
  "userIdCounter (snd (updateOrderStatus now i s st)) = userIdCounter st"
  by (simp_all add: updateOrderStatus_def Let_def split: option.splits)

lemma users_updatePaymentStatus [simp]:
  "users (snd (updatePaymentStatus now i s st)) = users st"
  "userIdCounter (snd (updatePaymentStatus now i s st)) = userIdCounter st"
  by (simp_all add: updatePaymentStatus_def Let_def split: option.splits)

lemma users_inv_cong:
  "users st' = users st \<Longrightarrow> userIdCounter st' = userIdCounter st \<Longrightarrow>
   users_inv st' = users_inv st"
  by (simp add: users_inv_def)

lemma step_ok_same:
  "users_inv st \<Longrightarrow> users st' = users st \<Longrightarrow> userIdCounter st' = userIdCounter st \<Longrightarrow>
   step_ok st [] st'"
  by (simp add: step_ok_def users_inv_def)

lemma step_users:
  assumes "users_inv st"
  shows "step_ok st (fst (step v c st)) (snd (step v c st))"
proof (cases c)
  case (CreateUser now iu)
  then show ?thesis using assms
    by (simp add: split_beta step_ok_def createUser_inv createUser_id createUser_counter)
next
  case (InitializeTestUser lc h n1 n2)
  then show ?thesis
    using initializeTestUser_inv [OF assms, of lc h n1 n2 "fst (initializeTestUser lc h n1 n2 st)"
        "snd (initializeTestUser lc h n1 n2 st)"]
    by (simp add: step_ok_def)
next
  case (GetServices clock)
  then show ?thesis using assms
    by (cases v) (simp_all add: step_ok_same getServices_v2_def split_beta users_createServices)
qed (use assms in \<open>simp_all add: step_ok_same\<close>)

lemma step_ok_trans:
  assumes "step_ok st us st1" and "step_ok st1 us' st2"
  shows "step_ok st (us @ us') st2"
proof -
  have "u_id a < u_id b" if "a \<in> set us" "b \<in> set us'" for a b
  proof -
    from that assms have "u_id a < userIdCounter st1" "userIdCounter st1 \<le> u_id b"
      by (auto simp: step_ok_def list_all_iff)
    then show ?thesis by simp
  qed
  moreover have "userIdCounter st \<le> u_id b \<and> u_id b < userIdCounter st2" if "b \<in> set (us @ us')" for b
    using that assms by (fastforce simp: step_ok_def list_all_iff)
  ultimately show ?thesis using assms
    by (simp add: step_ok_def sorted_wrt_append list_all_iff)
qed

lemma run_users:
  "users_inv st \<Longrightarrow> step_ok st (fst (run v cs st)) (snd (run v cs st))"
proof (induction cs arbitrary: st)
  case Nil
  then show ?case by (simp add: step_ok_def)
next
  case (Cons c cs)
  let ?r1 = "step v c st"
  have s1: "step_ok st (fst ?r1) (snd ?r1)" by (rule step_users [OF Cons.prems])
  then have inv1: "users_inv (snd ?r1)" by (simp add: step_ok_def)
  have s2: "step_ok (snd ?r1) (fst (run v cs (snd ?r1))) (snd (run v cs (snd ?r1)))"
    by (rule Cons.IH [OF inv1])
  show ?case using step_ok_trans [OF s1 s2]
    by (simp add: split_beta)
qed

lemma users_inv_empty: "users_inv empty_storage"
  by (simp add: users_inv_def empty_storage_def)

lemma users_inv_new: "users_inv (new_MemStorage v clock)"
proof (cases v)
  case Earlier
  have "users_inv (snd (createServices clock 0 seed_v1 empty_storage)) = users_inv empty_storage"
    by (rule users_inv_cong) (simp_all add: users_createServices)
  then have "users_inv (snd (createServices clock 0 seed_v1 empty_storage))"
    by (simp add: users_inv_empty)
  then show ?thesis using Earlier
    by (simp add: new_MemStorage_def constructor_v1_def initializeServices_v1_def)
next
  case Later
  then show ?thesis
    by (simp add: new_MemStorage_def constructor_v2_def users_inv_empty)
qed

lemma users_inv_ids: "users_inv st \<Longrightarrow> distinct (map (u_id \<circ> snd) (users st))"
proof -
  assume a: "users_inv st"
  then have "map (u_id \<circ> snd) (users st) = map fst (users st)"
    by (auto simp: users_inv_def list_all_iff)
  moreover from a have "distinct (map fst (users st))" by (simp add: users_inv_def)
  ultimately show ?thesis by (simp only:)
qed

section \<open>Properties of the service map\<close>

lemma length_catalog_services [simp]: "length (catalog_services clock k n xs) = length xs"
  by (induction xs arbitrary: k n) simp_all

lemma nth_catalog_services:
  "j < length xs \<Longrightarrow>
   catalog_services clock k n xs ! j = new_service (n + j) (clock (k + j)) (xs ! j)"
proof (induction xs arbitrary: k n j)
  case Nil
  then show ?case by simp
next
  case (Cons x xs)
  then show ?case by (cases j) simp_all
qed

lemma s_id_new_service: "s_id (new_service i now x) = i"
  by (simp add: new_service_def)

lemma ids_catalog_services:
  "map s_id (catalog_services clock k n xs) = [n..<n + length xs]"
proof (induction xs arbitrary: k n)
  case Nil
  then show ?case by simp
next
  case (Cons x xs)
  then show ?case by (simp add: s_id_new_service upt_rec)
qed

lemma services_inv_fresh:
  "services_inv st \<Longrightarrow> serviceIdCounter st \<notin> fst ` set (services st)"
  by (auto simp: services_inv_def list_all_iff)

lemma createService_effect:
  "services_inv st \<Longrightarrow>
   createService now x st =
     (new_service (serviceIdCounter st) now x,
      st\<lparr>services := services st @ [(serviceIdCounter st, new_service (serviceIdCounter st) now x)],
         serviceIdCounter := Suc (serviceIdCounter st)\<rparr>)"
  by (simp add: createService_def Let_def update_fresh services_inv_fresh)

lemma services_inv_append:
  "services_inv st \<Longrightarrow>
   services_inv (st\<lparr>services := services st @ [(serviceIdCounter st, new_service (serviceIdCounter st) now x)],
         serviceIdCounter := Suc (serviceIdCounter st)\<rparr>)"
  by (auto simp: services_inv_def list_all_iff s_id_new_service)

lemma createServices_effect:
  "services_inv st \<Longrightarrow>
   createServices clock k xs st =
     (catalog_services clock k (serviceIdCounter st) xs,
      st\<lparr>services := services st @ stored (catalog_services clock k (serviceIdCounter st) xs),
         serviceIdCounter := serviceIdCounter st + length xs\<rparr>)"
proof (induction xs arbitrary: k st)
  case Nil
  then show ?case by (simp add: stored_def)
next
  case (Cons x xs)
  let ?st1 = "st\<lparr>services := services st @ [(serviceIdCounter st, new_service (serviceIdCounter st) (clock k) x)],
         serviceIdCounter := Suc (serviceIdCounter st)\<rparr>"
  have inv1: "services_inv ?st1" by (rule services_inv_append [OF Cons.prems])
  show ?case
    by (simp add: createService_effect [OF Cons.prems] Cons.IH [OF inv1] stored_def s_id_new_service)
qed

lemma createServices_inv:
  assumes "services_inv st"
  shows "services_inv (snd (createServices clock k xs st))"
proof -
  let ?ss = "catalog_services clock k (serviceIdCounter st) xs"
  have ids: "map fst (stored ?ss) = [serviceIdCounter st..<serviceIdCounter st + length xs]"
    by (simp add: stored_def comp_def ids_catalog_services)
  have mem: "(a, s) \<in> set (stored ?ss) \<Longrightarrow> s_id s = a \<and> a \<in> set (map fst (stored ?ss))" for a s
    by (force simp: stored_def)
  have "distinct (map fst (services st @ stored ?ss))"
    using assms by (auto simp: ids services_inv_def list_all_iff)
  moreover have "list_all (\<lambda>(a, s). s_id s = a \<and> a < serviceIdCounter st + length xs)
     (services st @ stored ?ss)"
    using assms mem unfolding ids by (fastforce simp: services_inv_def list_all_iff)
  ultimately show ?thesis
    by (simp add: createServices_effect [OF assms] services_inv_def)
qed

lemma services_inv_cong:
  "services st' = services st \<Longrightarrow> serviceIdCounter st' = serviceIdCounter st \<Longrightarrow>
   services_inv st' = services_inv st"
  by (simp add: services_inv_def)

lemma services_createUser:
  "services (snd (createUser now iu st)) = services st \<and>
   serviceIdCounter (snd (createUser now iu st)) = serviceIdCounter st"
  by (simp add: createUser_def Let_def)

lemma services_initializeTestUser:
  "services (snd (initializeTestUser lc h n1 n2 st)) = services st \<and>
   serviceIdCounter (snd (initializeTestUser lc h n1 n2 st)) = serviceIdCounter st"
  by (simp add: initializeTestUser_def split_beta Let_def services_createUser split: option.splits)

lemma services_createOrder:
  "services (snd (createOrder now x st)) = services st \<and>
   serviceIdCounter (snd (createOrder now x st)) = serviceIdCounter st"
  by (simp add: createOrder_def Let_def)

lemma services_updateOrderStatus:
  "services (snd (updateOrderStatus now i s st)) = services st \<and>
   serviceIdCounter (snd (updateOrderStatus now i s st)) = serviceIdCounter st"
  by (simp add: updateOrderStatus_def Let_def split: option.splits)

lemma services_updatePaymentStatus:
  "services (snd (updatePaymentStatus now i s st)) = services st \<and>
   serviceIdCounter (snd (updatePaymentStatus now i s st)) = serviceIdCounter st"
  by (simp add: updatePaymentStatus_def Let_def split: option.splits)

lemma step_services:
  assumes "services_inv st"
  shows "services_inv (snd (step v c st))"
proof (cases c)
  case (CreateUser now iu)
  have "services_inv (snd (createUser now iu st)) = services_inv st"
    by (rule services_inv_cong) (simp_all add: services_createUser)
  with assms CreateUser show ?thesis by (simp add: split_beta)
next
  case (InitializeTestUser lc h n1 n2)
  have "services_inv (snd (initializeTestUser lc h n1 n2 st)) = services_inv st"
    by (rule services_inv_cong) (simp_all add: services_initializeTestUser)
  with assms InitializeTestUser show ?thesis by simp
next
  case (CreateService now x)
  then show ?thesis
    using services_inv_append [OF assms, of now x]
    by (simp add: createService_effect [OF assms])
next
  case (GetServices clock)
  then show ?thesis using assms
    by (cases v) (simp_all add: getServices_v2_def split_beta createServices_inv)
next
  case (CreateOrder now x)
  have "services_inv (snd (createOrder now x st)) = services_inv st"
    by (rule services_inv_cong) (simp_all add: services_createOrder)
  with assms CreateOrder show ?thesis by simp
next
  case (UpdateOrderStatus now i s)
  have "services_inv (snd (updateOrderStatus now i s st)) = services_inv st"
    by (rule services_inv_cong) (simp_all add: services_updateOrderStatus)
  with assms UpdateOrderStatus show ?thesis by simp
next
  case (UpdatePaymentStatus now i s)
  have "services_inv (snd (updatePaymentStatus now i s st)) = services_inv st"
    by (rule services_inv_cong) (simp_all add: services_updatePaymentStatus)
  with assms UpdatePaymentStatus show ?thesis by simp
qed

lemma run_services: "services_inv st \<Longrightarrow> services_inv (snd (run v cs st))"
proof (induction cs arbitrary: st)
  case Nil
  then show ?case by simp
next
  case (Cons c cs)
  from Cons.IH [OF step_services [OF Cons.prems, of v c]]
  show ?case by (simp add: split_beta)
qed

lemma services_inv_empty: "services_inv empty_storage"
  by (simp add: services_inv_def empty_storage_def)

lemma services_inv_ids: "services_inv st \<Longrightarrow> distinct (map (s_id \<circ> snd) (services st))"
proof -
  assume a: "services_inv st"
  then have "map (s_id \<circ> snd) (services st) = map fst (services st)"
    by (auto simp: services_inv_def list_all_iff)
  moreover from a have "distinct (map fst (services st))" by (simp add: services_inv_def)
  ultimately show ?thesis by (simp only:)
qed

lemma length_seed_v2: "length seed_v2 = 11"
  by (simp add: seed_v2_def)

lemma length_seed_v1: "length seed_v1 = 37"
  by (simp add: seed_v1_def)

lemma snd_stored [simp]: "map snd (stored ss) = ss"
  by (simp add: stored_def comp_def)

lemma ids_stored: "map (s_id \<circ> snd) (stored ss) = map s_id ss"
  by (simp add: stored_def comp_def)

lemma constructor_v1_services:
  "services (constructor_v1 clock) = stored (catalog_services clock 0 1 seed_v1)"
  using createServices_effect [OF services_inv_empty, of clock 0 seed_v1]
  by (simp add: constructor_v1_def initializeServices_v1_def empty_storage_def)

lemma snd_getServices_v2:
  "snd (getServices_v2 clock st) = snd (createServices clock 0 seed_v2 st)"
  by (simp add: getServices_v2_def initializeServices_v2_def split_beta)

section \<open>Lower case and equality up to case\<close>

lemma of_char_lower:
  "is_upper c \<Longrightarrow> (of_char (lower_char c) :: nat) = of_char c + 32"
  by (auto simp: lower_char_def is_upper_def)

lemma lower_not_upper: "\<not> is_upper (lower_char c)"
proof (cases "is_upper c")
  case True
  then show ?thesis using of_char_lower [OF True] unfolding is_upper_def by arith
next
  case False
  then show ?thesis by (simp add: lower_char_def)
qed

lemma lower_char_idem: "lower_char (lower_char c) = lower_char c"
  using lower_not_upper [of c] by (simp add: lower_char_def [of "lower_char c"])

lemma lower_char_inj_upper:
  assumes "is_upper a" "is_upper b" "lower_char a = lower_char b"
  shows "a = b"
proof -
  have "(of_char (lower_char a) :: nat) = of_char (lower_char b)"
    using assms(3) by (simp only:)
  then have "(of_char a :: nat) + 32 = of_char b + 32"
    by (simp only: of_char_lower [OF assms(1)] of_char_lower [OF assms(2)])
  then have "(of_char a :: nat) = of_char b"
    by (simp only: add_right_cancel)
  then show ?thesis
    by (simp only: of_char_eq_iff)
qed

lemma lower_char_eq_iff: "lower_char a = lower_char b \<longleftrightarrow> same_letter a b"
proof
  assume eq: "lower_char a = lower_char b"
  show "same_letter a b"
  proof (cases "is_upper a")
    case ua: True
    show ?thesis
    proof (cases "is_upper b")
      case True
      with ua eq show ?thesis by (simp add: same_letter_def lower_char_inj_upper)
    next
      case False
      with ua eq show ?thesis by (simp add: same_letter_def lower_char_def)
    qed
  next
    case na: False
    show ?thesis
    proof (cases "is_upper b")
      case True
      with na eq show ?thesis by (simp add: same_letter_def lower_char_def)
    next
      case False
      with na eq show ?thesis by (simp add: same_letter_def lower_char_def)
    qed
  qed
next
  assume "same_letter a b"
  then show "lower_char a = lower_char b"
    by (auto simp: same_letter_def lower_char_idem)
qed

lemma toLowerCase_latin1_eq_iff: "toLowerCase_latin1 s = toLowerCase_latin1 t \<longleftrightarrow> equal_up_to_case s t"
proof (induction s arbitrary: t)
  case Nil
  then show ?case by (simp add: toLowerCase_latin1_def equal_up_to_case_def)
next
  case (Cons a s)
  show ?case
  proof (cases t)
    case Nil
    then show ?thesis by (simp add: toLowerCase_latin1_def equal_up_to_case_def)
  next
    case (Cons b t')
    with Cons.IH [of t'] show ?thesis
      by (simp add: toLowerCase_latin1_def equal_up_to_case_def lower_char_eq_iff)
  qed
qed



section \<open>Properties of the order map\<close>

lemma update_others: "filter (\<lambda>p. fst p \<noteq> k) (AList.update k v al) = filter (\<lambda>p. fst p \<noteq> k) al"
  by (induction al) auto

lemma update_keys_present: "map_of al k = Some w \<Longrightarrow> map fst (AList.update k v al) = map fst al"
  by (auto simp: update_keys dest: map_of_SomeD intro: rev_image_eqI)

section \<open>The claims\<close>

text \<open>
  Claim C1.  Take a store of either version as its constructor leaves it and let any
  sequence of calls run on it.  The ids of the users that the calls of \<open>createUser\<close>
  return, in call order, are strictly increasing, hence pairwise distinct, and no two
  users held in the store share an id.
\<close>

theorem createUser_ids_strictly_increasing:
  "sorted_wrt (<) (map u_id (fst (run v cs (new_MemStorage v clock)))) \<and>
   distinct (map u_id (fst (run v cs (new_MemStorage v clock)))) \<and>
   distinct (map (u_id \<circ> snd) (users (snd (run v cs (new_MemStorage v clock)))))"
proof -
  have ok: "step_ok (new_MemStorage v clock) (fst (run v cs (new_MemStorage v clock)))
              (snd (run v cs (new_MemStorage v clock)))"
    by (rule run_users [OF users_inv_new])
  then have s: "sorted_wrt (<) (map u_id (fst (run v cs (new_MemStorage v clock))))"
    by (simp add: step_ok_def)
  then have "distinct (map u_id (fst (run v cs (new_MemStorage v clock))))"
    by (simp add: strict_sorted_iff)
  with s ok show ?thesis by (simp add: step_ok_def users_inv_ids)
qed

theorem createUser_ids_strictly_increasing_witness:
  "map u_id (fst (run Later
      [CreateUser 1 alice, InitializeTestUser toLowerCase_latin1 id 2 3, CreateUser 4 alice]
      (new_MemStorage Later Suc))) = [1, 2, 3, 4] \<and>
   distinct (map (u_id \<circ> snd) (users (snd (run Later
      [CreateUser 1 alice, InitializeTestUser toLowerCase_latin1 id 2 3, CreateUser 4 alice]
      (new_MemStorage Later Suc)))))"
proof -
  have "map u_id (fst (run Later
      [CreateUser 1 alice, InitializeTestUser toLowerCase_latin1 id 2 3, CreateUser 4 alice]
      (new_MemStorage Later Suc))) = [1, 2, 3, 4]"
    by code_simp
  then show ?thesis
    using createUser_ids_strictly_increasing [of Later
        "[CreateUser 1 alice, InitializeTestUser toLowerCase_latin1 id 2 3, CreateUser 4 alice]" Suc]
    by simp
qed

text \<open>
  Claim C2.  \<open>getServicesByCategory c\<close> returns exactly the seeded services whose
  category is \<open>c\<close>, in insertion order.  In the earlier version the constructor seeds
  the store, and the result is the catalog's services of that category, with ids from 1
  on, in catalog order.  In the later version the constructor leaves the service map
  empty, so that the result is empty until \<open>getServices\<close> has seeded the store; after
  that call the result is again the catalog's services of that category in catalog
  order.  On every store the result is the list of all stored services, as the earlier
  version's \<open>getServices\<close> returns it, filtered by the category.
\<close>

theorem getServicesByCategory_exact:
  "getServicesByCategory c (constructor_v1 clock) =
     filter (\<lambda>s. category s = c) (catalog_services clock 0 1 seed_v1) \<and>
   getServicesByCategory c constructor_v2 = [] \<and>
   getServicesByCategory c (snd (getServices_v2 clock constructor_v2)) =
     filter (\<lambda>s. category s = c) (catalog_services clock 0 1 seed_v2) \<and>
   getServicesByCategory c st = filter (\<lambda>s. category s = c) (getServices_v1 st)"
proof -
  have "services (snd (getServices_v2 clock constructor_v2)) =
          stored (catalog_services clock 0 1 seed_v2)"
    using createServices_effect [OF services_inv_empty, of clock 0 seed_v2]
    by (simp add: snd_getServices_v2 constructor_v2_def empty_storage_def)
  then show ?thesis
    by (simp add: getServicesByCategory_def constructor_v1_services getServices_v1_def
        constructor_v2_def empty_storage_def)
qed

theorem getServicesByCategory_exact_witness:
  "map s_id (getServicesByCategory ''Legal'' (snd (getServices_v2 Suc constructor_v2))) = [8]"
proof -
  have "getServicesByCategory ''Legal'' (snd (getServices_v2 Suc constructor_v2)) =
     filter (\<lambda>s. category s = ''Legal'') (catalog_services Suc 0 1 seed_v2)"
    using getServicesByCategory_exact [of "''Legal''" Suc empty_storage]
    by (elim conjE)
  then show ?thesis
    by (simp add: seed_v2_def new_service_def)
qed

text \<open>
  Claim C3, as stated, says that in the later version a call of \<open>getServices\<close> discards
  the records stored before and leaves records with duplicate ids.  It does neither:
  after two calls on a new store the 11 records of the first call are still the first 11
  records of the map, and the 22 records carry the ids 1 to 22.
\<close>

theorem getServices_v2_counterexample:
  "services (snd (getServices_v2 Suc constructor_v2)) \<noteq> [] \<and>
   take 11 (services (snd (getServices_v2 Suc (snd (getServices_v2 Suc constructor_v2))))) =
     services (snd (getServices_v2 Suc constructor_v2)) \<and>
   map (s_id \<circ> snd) (services (snd (getServices_v2 Suc (snd (getServices_v2 Suc constructor_v2))))) =
     [1..<23]"
proof -
  define st1 where "st1 = snd (getServices_v2 Suc constructor_v2)"
  have inv0: "services_inv constructor_v2"
    by (simp add: constructor_v2_def services_inv_empty)
  have e1: "st1 = constructor_v2\<lparr>services := stored (catalog_services Suc 0 1 seed_v2),
                                 serviceIdCounter := 12\<rparr>"
    using createServices_effect [OF inv0, of Suc 0 seed_v2]
    by (simp add: st1_def snd_getServices_v2 length_seed_v2 constructor_v2_def
        empty_storage_def)
  have inv1: "services_inv st1"
    unfolding st1_def using createServices_inv [OF inv0, of Suc 0 seed_v2]
    by (simp add: snd_getServices_v2)
  have e2: "services (snd (getServices_v2 Suc st1)) =
      services st1 @ stored (catalog_services Suc 0 12 seed_v2)"
    using createServices_effect [OF inv1, of Suc 0 seed_v2]
    by (simp add: snd_getServices_v2 e1)
  have l1: "length (services st1) = 11"
    by (simp add: e1 stored_def length_seed_v2)
  have ne: "services st1 \<noteq> []" using l1 by auto
  have ids1: "map (s_id \<circ> snd) (services st1) = [1..<12]"
    using ids_catalog_services [of Suc 0 1 seed_v2]
    by (simp add: e1 length_seed_v2 ids_stored)
  have ids2: "map (s_id \<circ> snd) (stored (catalog_services Suc 0 12 seed_v2)) = [12..<23]"
    using ids_catalog_services [of Suc 0 12 seed_v2]
    by (simp add: length_seed_v2 ids_stored)
  have "[1..<12] @ [12..<23] = [1..<(23::nat)]"
    using upt_add_eq_append [of 1 12 11] by simp
  then show ?thesis
    unfolding st1_def [symmetric] using ne l1 ids1 ids2 by (simp add: e2)
qed

text \<open>
  Claim C3, amended.  In the later version, on every store that a sequence of calls
  leaves, a call of \<open>getServices\<close> creates the whole seed catalog again: it appends the
  11 catalog entries to the service map under the next 11 ids, behind the records stored
  before, which it keeps, and advances the counter by 11.  The ids of the stored services
  stay pairwise distinct; what repeats is the content of the catalog.
\<close>

theorem getServices_v2_reseeds:
  "(let st = snd (run Later cs constructor_v2);
        n = serviceIdCounter st;
        created = catalog_services clock 0 n seed_v2
    in snd (getServices_v2 clock st) =
         st\<lparr>services := services st @ stored created, serviceIdCounter := n + 11\<rparr> \<and>
       map s_id created = [n..<n + 11] \<and>
       distinct (map (s_id \<circ> snd) (services (snd (getServices_v2 clock st)))))"
proof -
  define st where "st = snd (run Later cs constructor_v2)"
  have inv: "services_inv st"
    unfolding st_def by (rule run_services) (simp add: constructor_v2_def services_inv_empty)
  have eff: "snd (getServices_v2 clock st) =
      st\<lparr>services := services st @ stored (catalog_services clock 0 (serviceIdCounter st) seed_v2),
         serviceIdCounter := serviceIdCounter st + 11\<rparr>"
    using createServices_effect [OF inv, of clock 0 seed_v2]
    by (simp add: snd_getServices_v2 length_seed_v2)
  have "services_inv (snd (getServices_v2 clock st))"
    using createServices_inv [OF inv, of clock 0 seed_v2]
    by (simp add: snd_getServices_v2)
  then have d: "distinct (map (s_id \<circ> snd) (services (snd (getServices_v2 clock st))))"
    by (rule services_inv_ids)
  have ids: "map s_id (catalog_services clock 0 (serviceIdCounter st) seed_v2) =
      [serviceIdCounter st..<serviceIdCounter st + 11]"
    by (simp add: ids_catalog_services length_seed_v2)
  show ?thesis
    unfolding Let_def st_def [symmetric] using eff d ids by simp
qed

text \<open>
  Claim C4.  When the save button is pressed in edit mode and the network write fails
  (the promise rejects or the response is not ok), the component is still in edit mode
  afterwards, it renders exactly what it rendered before, and neither the user of the
  context nor the form state has changed.
\<close>

theorem failed_save_keeps_view:
  assumes "isEditing st" and "save_failed r"
  shows "isEditing (handle js (ClickSave r) st) \<and>
         render (handle js (ClickSave r) st) = render st \<and>
         auth_user (handle js (ClickSave r) st) = auth_user st \<and>
         formData (handle js (ClickSave r) st) = formData st"
  using assms by (simp add: handleSave_def render_def)

theorem failed_save_keeps_view_witness:
  "isEditing (handle stringify_ascii ClickEdit (ProfileCard_init (Some asha))) \<and>
   save_failed Rejected \<and> save_failed (Response False) \<and>
   isEditing (handle stringify_ascii (ClickSave Rejected)
     (handle stringify_ascii ClickEdit (ProfileCard_init (Some asha)))) \<and>
   render (handle stringify_ascii (ClickSave (Response False))
     (handle stringify_ascii ClickEdit (ProfileCard_init (Some asha)))) =
   \<lparr>name_view = Input ''Asha'', email_view = Input ''asha@example.com'',
     phone_view = Input '''', edit_buttons = True\<rparr>"
proof -
  have e: "isEditing (handle stringify_ascii ClickEdit (ProfileCard_init (Some asha)))"
    by (simp add: ProfileCard_init_def)
  have f: "save_failed Rejected" "save_failed (Response False)"
    by (simp_all add: save_failed_def)
  have r: "render (handle stringify_ascii ClickEdit (ProfileCard_init (Some asha))) =
     \<lparr>name_view = Input ''Asha'', email_view = Input ''asha@example.com'',
       phone_view = Input '''', edit_buttons = True\<rparr>"
    by (simp add: ProfileCard_init_def render_def asha_def)
  show ?thesis
    using e f r failed_save_keeps_view [OF e f(1), of stringify_ascii]
      failed_save_keeps_view [OF e f(2), of stringify_ascii]
    by simp
qed

text \<open>
  Claim C5, as stated, says that a failed save leaves edit mode.  It does not: after a
  rejected write, and after a response that is not ok, the component is still in edit
  mode.
\<close>

theorem failed_save_leaves_edit_mode_counterexample:
  "isEditing (handle stringify_ascii ClickEdit (ProfileCard_init (Some asha))) \<and>
   isEditing (handle stringify_ascii (ClickSave Rejected)
     (handle stringify_ascii ClickEdit (ProfileCard_init (Some asha)))) \<and>
   isEditing (handleSave stringify_ascii (Response False)
     (handle stringify_ascii ClickEdit (ProfileCard_init (Some asha))))"
  by (simp add: ProfileCard_init_def handleSave_def save_failed_def)

text \<open>
  Claim C5, amended.  When the save button is pressed in edit mode, a failed write keeps
  the component in edit mode and notifies the user with one toast titled "Update Failed";
  only a successful write leaves edit mode, with one toast titled "Profile Updated".
\<close>

theorem save_outcome:
  assumes "isEditing st"
  shows "(save_failed r \<longrightarrow>
            isEditing (handle js (ClickSave r) st) \<and>
            toasts (handle js (ClickSave r) st) = toasts st @ 
              [\<lparr>title = ''Update Failed'',
                toast_description = ''Failed to update profile. Please try again.'',
                variant = Some ''destructive''\<rparr>]) \<and>
         (\<not> save_failed r \<longrightarrow>
            \<not> isEditing (handle js (ClickSave r) st) \<and>
            toasts (handle js (ClickSave r) st) = toasts st @
              [\<lparr>title = ''Profile Updated'',
                toast_description = ''Your profile has been successfully updated.'',
                variant = None\<rparr>])"
  using assms by (simp add: handleSave_def)

theorem save_outcome_witness:
  "isEditing (handle stringify_ascii ClickEdit (ProfileCard_init (Some asha))) \<and>
   save_failed (Response False) \<and> \<not> save_failed (Response True) \<and>
   isEditing (handle stringify_ascii (ClickSave (Response False))
     (handle stringify_ascii ClickEdit (ProfileCard_init (Some asha)))) \<and>
   toasts (handle stringify_ascii (ClickSave (Response False))
     (handle stringify_ascii ClickEdit (ProfileCard_init (Some asha)))) =
     [\<lparr>title = ''Update Failed'',
       toast_description = ''Failed to update profile. Please try again.'',
       variant = Some ''destructive''\<rparr>] \<and>
   \<not> isEditing (handle stringify_ascii (ClickSave (Response True))
     (handle stringify_ascii ClickEdit (ProfileCard_init (Some asha))))"
proof -
  have e: "isEditing (handle stringify_ascii ClickEdit (ProfileCard_init (Some asha)))"
    by (simp add: ProfileCard_init_def)
  have t: "toasts (handle stringify_ascii ClickEdit (ProfileCard_init (Some asha))) = []"
    by (simp add: ProfileCard_init_def)
  have f: "save_failed (Response False)" "\<not> save_failed (Response True)"
    by (simp_all add: save_failed_def)
  show ?thesis
    using e f t save_outcome [OF e, of "Response False" stringify_ascii]
      save_outcome [OF e, of "Response True" stringify_ascii]
    by simp
qed

text \<open>
  Claim C6.  Pressing save in edit mode sends exactly one request: a PUT to
  \<open>/api/user/profile\<close> whose body is \<open>JSON.stringify\<close> of the object with the three
  fields name, email and phone, in this order, holding the values of the form state as
  they are.  The form state itself is not changed.
\<close>

theorem save_sends_one_put:
  assumes "isEditing st"
  shows "requests (handle js (ClickSave r) st) = requests st @
           [\<lparr>url = ''/api/user/profile'',
             http_method = ''PUT'',
             headers = [(''Content-Type'', ''application/json'')],
             body = js (JObject [(''name'', JString (fd_name (formData st))),
                                 (''email'', JString (fd_email (formData st))),
                                 (''phone'', JString (fd_phone (formData st)))]),
             credentials = ''include''\<rparr>] \<and>
         length (requests (handle js (ClickSave r) st)) = Suc (length (requests st)) \<and>
         formData (handle js (ClickSave r) st) = formData st"
  using assms by (cases "save_failed r") (simp_all add: handleSave_def formData_json_def)

theorem save_sends_one_put_witness:
  \<open>isEditing (handle stringify_ascii (ChangePhone ''98765'')
      (handle stringify_ascii ClickEdit (ProfileCard_init (Some asha)))) \<and>
   map body (requests (handle stringify_ascii (ClickSave (Response True))
     (handle stringify_ascii (ChangePhone ''98765'')
       (handle stringify_ascii ClickEdit (ProfileCard_init (Some asha)))))) =
   [''{"name":"Asha","email":"asha@example.com","phone":"98765"}'']\<close>
proof -
  define st0 where "st0 = handle stringify_ascii (ChangePhone ''98765'')
      (handle stringify_ascii ClickEdit (ProfileCard_init (Some asha)))"
  have e: "isEditing st0"
    by (simp add: st0_def ProfileCard_init_def)
  have fd: "formData st0 =
      \<lparr>fd_name = ''Asha'', fd_email = ''asha@example.com'', fd_phone = ''98765''\<rparr>"
    by (simp add: st0_def ProfileCard_init_def asha_def)
  have rq: "requests st0 = []"
    by (simp add: st0_def ProfileCard_init_def)
  have s: \<open>stringify_ascii (JObject [(''name'', JString ''Asha''),
      (''email'', JString ''asha@example.com''), (''phone'', JString ''98765'')]) =
      ''{"name":"Asha","email":"asha@example.com","phone":"98765"}''\<close>
    by code_simp
  have "map body (requests (handle stringify_ascii (ClickSave (Response True)) st0)) =
      [stringify_ascii (JObject [(''name'', JString ''Asha''),
      (''email'', JString ''asha@example.com''), (''phone'', JString ''98765'')])]"
    using save_sends_one_put [OF e, of stringify_ascii "Response True"]
    by (simp add: fd rq del: stringify_ascii.simps stringify_fields.simps)
  then show ?thesis
    unfolding st0_def [symmetric] s using e by simp
qed

text \<open>
  Claim C7.  For a user with the referral code \<open>code\<close>, the referral link is the origin,
  followed by \<open>/auth?ref=\<close>, followed by \<open>code\<close>, both unmodified; a successful copy
  writes exactly this link to the clipboard, and a failed copy leaves the clipboard as it
  was.
\<close>

theorem referral_link_embeds_origin_and_code:
  assumes "rc_user st = Some u" and "referral_code u = Defined code"
  shows "referralLink origin (rc_user st) = origin @ ''/auth?ref='' @ code \<and>
         clipboard (copyToClipboard origin True st) = Some (origin @ ''/auth?ref='' @ code) \<and>
         clipboard (copyToClipboard origin False st) = clipboard st"
  using assms by (simp add: referralLink_def user_referral_code_def copyToClipboard_def)

theorem referral_link_embeds_origin_and_code_witness:
  "rc_user \<lparr>rc_user = Some asha, copied = False, rc_toasts = [], clipboard = None,
            pending_timeouts = 0\<rparr> = Some asha \<and>
   referral_code asha = Defined ''REF123'' \<and>
   clipboard (copyToClipboard ''https://quicktech.example'' True
     \<lparr>rc_user = Some asha, copied = False, rc_toasts = [], clipboard = None,
      pending_timeouts = 0\<rparr>) = Some ''https://quicktech.example/auth?ref=REF123''"
proof -
  have a: "rc_user \<lparr>rc_user = Some asha, copied = False, rc_toasts = [], clipboard = None,
            pending_timeouts = 0\<rparr> = Some asha"
    by simp
  have b: "referral_code asha = Defined ''REF123''"
    by (simp add: asha_def)
  show ?thesis
    using a b referral_link_embeds_origin_and_code [OF a b, of "''https://quicktech.example''"]
    by simp
qed



text \<open>
  Claim C9.  For an order \<open>ord\<close> stored under the id \<open>i\<close>, \<open>updateOrderStatus\<close> returns
  and stores \<open>ord\<close> with the new status and the new \<open>updated_at\<close> and nothing else
  changed: the payment status, the id, the user id and \<open>created_at\<close> are those of
  \<open>ord\<close>.  Every other order is untouched, the keys of the map keep their order, and
  the rest of the store is unchanged.  \<open>updatePaymentStatus\<close> does the same with the
  payment status in the place of the status.
\<close>

theorem update_status_frame:
  assumes "getOrder i st = Some ord"
  shows "(let (r, st') = updateOrderStatus now i s st
          in r = Some (ord\<lparr>status := s, updated_at := now\<rparr>) \<and>
             getOrder i st' = r \<and>
             payment_status (the r) = payment_status ord \<and>
             o_id (the r) = o_id ord \<and> user_id (the r) = user_id ord \<and>
             created_at (the r) = created_at ord \<and>
             (\<forall>j. j \<noteq> i \<longrightarrow> getOrder j st' = getOrder j st) \<and>
             filter (\<lambda>p. fst p \<noteq> i) (orders st') = filter (\<lambda>p. fst p \<noteq> i) (orders st) \<and>
             map fst (orders st') = map fst (orders st) \<and>
             st'\<lparr>orders := orders st\<rparr> = st) \<and>
         (let (r, st') = updatePaymentStatus now i s st
          in r = Some (ord\<lparr>payment_status := s, updated_at := now\<rparr>) \<and>
             getOrder i st' = r \<and>
             status (the r) = status ord \<and>
             o_id (the r) = o_id ord \<and> user_id (the r) = user_id ord \<and>
             created_at (the r) = created_at ord \<and>
             (\<forall>j. j \<noteq> i \<longrightarrow> getOrder j st' = getOrder j st) \<and>
             filter (\<lambda>p. fst p \<noteq> i) (orders st') = filter (\<lambda>p. fst p \<noteq> i) (orders st) \<and>
             map fst (orders st') = map fst (orders st) \<and>
             st'\<lparr>orders := orders st\<rparr> = st)"
proof -
  from assms have m: "map_of (orders st) i = Some ord" by (simp add: getOrder_def)
  have a: "updateOrderStatus now i s st =
      (Some (ord\<lparr>status := s, updated_at := now\<rparr>),
       st\<lparr>orders := AList.update i (ord\<lparr>status := s, updated_at := now\<rparr>) (orders st)\<rparr>)"
    using m by (simp add: updateOrderStatus_def Let_def)
  have b: "updatePaymentStatus now i s st =
      (Some (ord\<lparr>payment_status := s, updated_at := now\<rparr>),
       st\<lparr>orders := AList.update i (ord\<lparr>payment_status := s, updated_at := now\<rparr>) (orders st)\<rparr>)"
    using m by (simp add: updatePaymentStatus_def Let_def)
  show ?thesis
    unfolding a b
    by (simp add: getOrder_def update_conv' update_others update_keys_present [OF m])
qed

theorem update_status_frame_witness:
  "getOrder 1 (snd (createOrder 5 \<lparr>io_user_id = 7\<rparr> empty_storage)) =
     Some (fst (createOrder 5 \<lparr>io_user_id = 7\<rparr> empty_storage)) \<and>
   fst (updateOrderStatus 9 1 ''done'' (snd (createOrder 5 \<lparr>io_user_id = 7\<rparr> empty_storage))) =
     Some \<lparr>o_id = 1, user_id = 7, status = ''done'', payment_status = ''pending'',
           created_at = 5, updated_at = 9\<rparr> \<and>
   fst (updatePaymentStatus 9 1 ''paid'' (snd (createOrder 5 \<lparr>io_user_id = 7\<rparr> empty_storage))) =
     Some \<lparr>o_id = 1, user_id = 7, status = ''pending'', payment_status = ''paid'',
           created_at = 5, updated_at = 9\<rparr>"
proof -
  have h: "getOrder 1 (snd (createOrder 5 \<lparr>io_user_id = 7\<rparr> empty_storage)) =
     Some (fst (createOrder 5 \<lparr>io_user_id = 7\<rparr> empty_storage))"
    by code_simp
  have v: "fst (createOrder 5 \<lparr>io_user_id = 7\<rparr> empty_storage) =
      \<lparr>o_id = 1, user_id = 7, status = ''pending'', payment_status = ''pending'',
           created_at = 5, updated_at = 5\<rparr>"
    by code_simp
  show ?thesis
    using h update_status_frame [OF h, of 9 "''done''"] update_status_frame [OF h, of 9 "''paid''"]
    by (simp add: split_beta v)
qed

text \<open>
  Claim C10.  For an id under which no order is stored, \<open>updateOrderStatus\<close> and
  \<open>updatePaymentStatus\<close> return \<open>undefined\<close> and leave the whole store as it is.
\<close>

theorem update_unknown_order:
  assumes "getOrder i st = None"
  shows "updateOrderStatus now i s st = (None, st) \<and> updatePaymentStatus now i s st = (None, st)"
  using assms by (simp add: getOrder_def updateOrderStatus_def updatePaymentStatus_def)

theorem update_unknown_order_witness:
  "getOrder 3 (snd (createOrder 5 \<lparr>io_user_id = 7\<rparr> empty_storage)) = None \<and>
   updateOrderStatus 9 3 ''done'' (snd (createOrder 5 \<lparr>io_user_id = 7\<rparr> empty_storage)) =
     (None, snd (createOrder 5 \<lparr>io_user_id = 7\<rparr> empty_storage)) \<and>
   updatePaymentStatus 9 3 ''paid'' (snd (createOrder 5 \<lparr>io_user_id = 7\<rparr> empty_storage)) =
     (None, snd (createOrder 5 \<lparr>io_user_id = 7\<rparr> empty_storage))"
proof -
  have h: "getOrder 3 (snd (createOrder 5 \<lparr>io_user_id = 7\<rparr> empty_storage)) = None"
    by code_simp
  show ?thesis
    using h update_unknown_order [OF h] by simp
qed

end
